theory Spec2Isabelle
  imports Main "HOL-Library.Multiset" "HOL-Library.Product_Lexorder"
begin

section \<open>Values decoded from JSON\<close>

text \<open>
  \<^verbatim>\<open>json.loads\<close> yields \<^verbatim>\<open>None\<close>, booleans, numbers, strings, lists and dicts with string
  keys. A string is a list of code points, one \<^typ>\<open>char\<close> each (the model has the 256
  code points of \<^typ>\<open>char\<close>). A float is kept as a mantissa and an exponent; no operation
  of the program looks inside a number. A dict is an association list in insertion order,
  looked up from the front.
\<close>

datatype pyval =
    PNone
  | PBool bool
  | PInt int
  | PFloat int int
  | PStr string
  | PList "pyval list"
  | PDict "(string \<times> pyval) list"

text \<open>The exceptions the program can raise; \<open>Exception\<close> carries its message.\<close>

datatype error =
    AttributeError
  | TypeError
  | ValueError
  | IndexError
  | OverflowError
  | JSONDecodeError
  | ConnectionError
  | Exception string

text \<open>\<^verbatim>\<open>d.get(k)\<close> on a dict: the value, or \<^verbatim>\<open>None\<close> when the key is absent.\<close>

definition dict_get :: "(string \<times> pyval) list \<Rightarrow> string \<Rightarrow> pyval" where
  "dict_get kvs k = (case map_of kvs k of None \<Rightarrow> PNone | Some v \<Rightarrow> v)"

text \<open>\<^verbatim>\<open>x.get(k)\<close> on any value: only a dict has the method.\<close>

fun py_get :: "pyval \<Rightarrow> string \<Rightarrow> error + pyval" where
  "py_get (PDict kvs) k = Inr (dict_get kvs k)"
| "py_get _ k = Inl AttributeError"

text \<open>
  \<^verbatim>\<open>xs[:i]\<close> on a sequence: a negative stop counts from the end, and a stop outside the
  sequence is clamped.
\<close>

definition slice_stop :: "int \<Rightarrow> 'a list \<Rightarrow> 'a list" where
  "slice_stop i xs = (if i < 0 then take (nat (int (length xs) + i)) xs else take (nat i) xs)"

text \<open>
  \<^verbatim>\<open>x[:i]\<close> on any value: strings and lists can be sliced, the rest raise (a dict raises
  \<open>TypeError\<close> too, for the slice is not hashable, in the Python versions before 3.12).
\<close>

fun py_slice_stop :: "int \<Rightarrow> pyval \<Rightarrow> error + pyval" where
  "py_slice_stop i (PStr s) = Inr (PStr (slice_stop i s))"
| "py_slice_stop i (PList xs) = Inr (PList (slice_stop i xs))"
| "py_slice_stop i _ = Inl TypeError"

section \<open>Naive date-times and durations\<close>

text \<open>
  The fields of a \<^verbatim>\<open>datetime\<close>. Python only builds date-times whose fields are in range
  (see \<open>datetime_new\<close> below), and the functions on date-times are meant for those.
\<close>

record datetime =
  dt_year :: nat
  dt_month :: nat
  dt_day :: nat
  dt_hour :: nat
  dt_minute :: nat
  dt_second :: nat
  dt_microsecond :: nat

text \<open>
  A \<^verbatim>\<open>timedelta\<close> is normalised to days, seconds and microseconds, which is one integer
  number of microseconds; comparison and \<^verbatim>\<open>.days\<close> are those of that integer.
\<close>

type_synonym timedelta = int

definition us_per_day :: int where
  "us_per_day = 86400 * 1000000"

definition td_days :: "timedelta \<Rightarrow> int" where
  "td_days td = td div us_per_day"

text \<open>\<^verbatim>\<open>timedelta(days=d)\<close>: the number of days is limited to nine digits.\<close>

definition timedelta_of_days :: "int \<Rightarrow> error + timedelta" where
  "timedelta_of_days d = (if \<bar>d\<bar> > 999999999 then Inl OverflowError else Inr (d * us_per_day))"

definition is_leap :: "nat \<Rightarrow> bool" where
  "is_leap y = (y mod 4 = 0 \<and> (y mod 100 \<noteq> 0 \<or> y mod 400 = 0))"

definition days_in_month :: "nat \<Rightarrow> nat \<Rightarrow> nat" where
  "days_in_month y m =
     (if m = 2 \<and> is_leap y then 29
      else [0, 31, 28, 31, 30, 31, 30, 31, 31, 30, 31, 30, 31] ! m)"

definition days_before_year :: "nat \<Rightarrow> int" where
  "days_before_year y = (let z = int y - 1 in z * 365 + z div 4 - z div 100 + z div 400)"

definition days_before_month :: "nat \<Rightarrow> nat \<Rightarrow> int" where
  "days_before_month y m =
     int ([0, 0, 31, 59, 90, 120, 151, 181, 212, 243, 273, 304, 334] ! m)
       + (if m > 2 \<and> is_leap y then 1 else 0)"

definition toordinal :: "datetime \<Rightarrow> int" where
  "toordinal d =
     days_before_year (dt_year d) + days_before_month (dt_year d) (dt_month d) + int (dt_day d)"

text \<open>\<^verbatim>\<open>a - b\<close> on two naive date-times.\<close>

definition dt_sub :: "datetime \<Rightarrow> datetime \<Rightarrow> timedelta" where
  "dt_sub a b =
     (let days = toordinal a - toordinal b;
          secs1 = int (dt_second a) + int (dt_minute a) * 60 + int (dt_hour a) * 3600;
          secs2 = int (dt_second b) + int (dt_minute b) * 60 + int (dt_hour b) * 3600
      in days * us_per_day + (secs1 - secs2) * 1000000
           + (int (dt_microsecond a) - int (dt_microsecond b)))"

text \<open>Naive date-times compare as the tuples of their fields.\<close>

definition dt_key :: "datetime \<Rightarrow> nat \<times> nat \<times> nat \<times> nat \<times> nat \<times> nat \<times> nat" where
  "dt_key d =
     (dt_year d, dt_month d, dt_day d, dt_hour d, dt_minute d, dt_second d, dt_microsecond d)"

text \<open>The constructor \<^verbatim>\<open>datetime(y, m, d, H, M, S, us)\<close> checks every field.\<close>

definition datetime_new :: "nat \<Rightarrow> nat \<Rightarrow> nat \<Rightarrow> nat \<Rightarrow> nat \<Rightarrow> nat \<Rightarrow> nat \<Rightarrow> error + datetime" where
  "datetime_new y m d H M S us =
     (if 1 \<le> y \<and> y \<le> 9999 \<and> 1 \<le> m \<and> m \<le> 12 \<and> 1 \<le> d \<and> d \<le> days_in_month y m
         \<and> H < 24 \<and> M < 60 \<and> S < 60 \<and> us < 1000000
      then Inr \<lparr>dt_year = y, dt_month = m, dt_day = d, dt_hour = H, dt_minute = M,
                dt_second = S, dt_microsecond = us\<rparr>
      else Inl ValueError)"

subsection \<open>Parsing with the format \<^verbatim>\<open>%Y-%m-%dT%H:%M:%S\<close>\<close>

text \<open>
  \<^verbatim>\<open>datetime.strptime\<close> turns the format into a regular expression, one group of ordered
  alternatives for each directive, matches it at the start of the string ignoring case,
  and refuses a string with text left after the match. A group is modelled by the list of
  its matches at the start of a string, in the order in which the regular expression tries
  them, each with the value read and the rest of the string.
\<close>

definition digit_of :: "char \<Rightarrow> nat option" where
  "digit_of c =
     map_of [(CHR ''0'', 0), (CHR ''1'', 1), (CHR ''2'', 2), (CHR ''3'', 3), (CHR ''4'', 4),
             (CHR ''5'', 5), (CHR ''6'', 6), (CHR ''7'', 7), (CHR ''8'', 8), (CHR ''9'', 9)] c"

definition one_digit :: "(nat \<Rightarrow> bool) \<Rightarrow> string \<Rightarrow> (nat \<times> string) list" where
  "one_digit ok s =
     (case s of
        a # rest \<Rightarrow> (case digit_of a of Some x \<Rightarrow> if ok x then [(x, rest)] else [] | None \<Rightarrow> [])
      | [] \<Rightarrow> [])"

definition two_digits :: "(nat \<Rightarrow> nat \<Rightarrow> bool) \<Rightarrow> string \<Rightarrow> (nat \<times> string) list" where
  "two_digits ok s =
     (case s of
        a # b # rest \<Rightarrow>
          (case (digit_of a, digit_of b) of
             (Some x, Some y) \<Rightarrow> if ok x y then [(10 * x + y, rest)] else []
           | _ \<Rightarrow> [])
      | _ \<Rightarrow> [])"

text \<open>\<^verbatim>\<open>%Y\<close> is \<^verbatim>\<open>\d\d\d\d\<close>.\<close>

definition re_Y :: "string \<Rightarrow> (nat \<times> string) list" where
  "re_Y s =
     (case s of
        a # b # c # d # rest \<Rightarrow>
          (case (digit_of a, digit_of b, digit_of c, digit_of d) of
             (Some w, Some x, Some y, Some z) \<Rightarrow> [(1000 * w + 100 * x + 10 * y + z, rest)]
           | _ \<Rightarrow> [])
      | _ \<Rightarrow> [])"

text \<open>\<^verbatim>\<open>%m\<close> is \<^verbatim>\<open>1[0-2]|0[1-9]|[1-9]\<close>.\<close>

definition re_m :: "string \<Rightarrow> (nat \<times> string) list" where
  "re_m s =
     two_digits (\<lambda>x y. x = 1 \<and> y \<le> 2) s @ two_digits (\<lambda>x y. x = 0 \<and> 1 \<le> y) s
       @ one_digit (\<lambda>x. 1 \<le> x) s"

text \<open>\<^verbatim>\<open>%d\<close> is \<^verbatim>\<open>3[0-1]|[1-2]\d|0[1-9]|[1-9]| [1-9]\<close>.\<close>

definition re_d :: "string \<Rightarrow> (nat \<times> string) list" where
  "re_d s =
     two_digits (\<lambda>x y. x = 3 \<and> y \<le> 1) s @ two_digits (\<lambda>x y. 1 \<le> x \<and> x \<le> 2) s
       @ two_digits (\<lambda>x y. x = 0 \<and> 1 \<le> y) s @ one_digit (\<lambda>x. 1 \<le> x) s
       @ (case s of a # rest \<Rightarrow> if a = CHR '' '' then one_digit (\<lambda>x. 1 \<le> x) rest else []
          | [] \<Rightarrow> [])"

text \<open>\<^verbatim>\<open>%H\<close> is \<^verbatim>\<open>2[0-3]|[0-1]\d|\d\<close>.\<close>

definition re_H :: "string \<Rightarrow> (nat \<times> string) list" where
  "re_H s =
     two_digits (\<lambda>x y. x = 2 \<and> y \<le> 3) s @ two_digits (\<lambda>x y. x \<le> 1) s
       @ one_digit (\<lambda>x. True) s"

text \<open>\<^verbatim>\<open>%M\<close> is \<^verbatim>\<open>[0-5]\d|\d\<close>.\<close>

definition re_M :: "string \<Rightarrow> (nat \<times> string) list" where
  "re_M s = two_digits (\<lambda>x y. x \<le> 5) s @ one_digit (\<lambda>x. True) s"

text \<open>\<^verbatim>\<open>%S\<close> is \<^verbatim>\<open>6[0-1]|[0-5]\d|\d\<close>.\<close>

definition re_S :: "string \<Rightarrow> (nat \<times> string) list" where
  "re_S s =
     two_digits (\<lambda>x y. x = 6 \<and> y \<le> 1) s @ two_digits (\<lambda>x y. x \<le> 5) s
       @ one_digit (\<lambda>x. True) s"

text \<open>A literal character of the format; \<open>cs\<close> holds its upper and lower case.\<close>

definition re_lit :: "char list \<Rightarrow> string \<Rightarrow> string list" where
  "re_lit cs s = (case s of a # rest \<Rightarrow> if a \<in> set cs then [rest] else [] | [] \<Rightarrow> [])"

definition format_regex_match ::
  "string \<Rightarrow> (nat \<times> nat \<times> nat \<times> nat \<times> nat \<times> nat \<times> string) list" where
  "format_regex_match s =
     [(Y, m, d, H, M, S, r11).
        (Y, r1) \<leftarrow> re_Y s, r2 \<leftarrow> re_lit ''-'' r1,
        (m, r3) \<leftarrow> re_m r2, r4 \<leftarrow> re_lit ''-'' r3,
        (d, r5) \<leftarrow> re_d r4, r6 \<leftarrow> re_lit ''Tt'' r5,
        (H, r7) \<leftarrow> re_H r6, r8 \<leftarrow> re_lit '':'' r7,
        (M, r9) \<leftarrow> re_M r8, r10 \<leftarrow> re_lit '':'' r9,
        (S, r11) \<leftarrow> re_S r10]"

text \<open>\<^verbatim>\<open>datetime.strptime(s, "%Y-%m-%dT%H:%M:%S")\<close> on a string.\<close>

definition strptime :: "string \<Rightarrow> error + datetime" where
  "strptime s =
     (case format_regex_match s of
        [] \<Rightarrow> Inl ValueError
      | (Y, m, d, H, M, S, rest) # _ \<Rightarrow>
          if rest \<noteq> [] then Inl ValueError else datetime_new Y m d H M S 0)"

text \<open>On any value: the first argument of \<^verbatim>\<open>strptime\<close> must be a string.\<close>

fun py_strptime :: "pyval \<Rightarrow> error + datetime" where
  "py_strptime (PStr s) = strptime s"
| "py_strptime _ = Inl TypeError"

subsection \<open>Formatting with \<^verbatim>\<open>%d-%m-%Y %H:%m\<close>\<close>

definition digit_char :: "nat \<Rightarrow> char" where
  "digit_char n = ''0123456789'' ! (n mod 10)"

definition pad2 :: "nat \<Rightarrow> string" where
  "pad2 n = [digit_char (n div 10), digit_char n]"

text \<open>A natural number in decimal, without padding.\<close>

fun str_nat :: "nat \<Rightarrow> string" where
  "str_nat n = (if n < 10 then [digit_char n] else str_nat (n div 10) @ [digit_char n])"

declare str_nat.simps [simp del]

text \<open>
  \<^verbatim>\<open>ts.strftime("%d-%m-%Y %H:%m")\<close>: \<^verbatim>\<open>%d\<close> is the day, \<^verbatim>\<open>%m\<close> the month, \<^verbatim>\<open>%Y\<close> the year,
  \<^verbatim>\<open>%H\<close> the hour, and the last directive is \<^verbatim>\<open>%m\<close> again, the month (the minute is
  \<^verbatim>\<open>%M\<close>). Day, month and hour are padded to two digits. The year is written by the C
  library; the model follows that of Linux, which does not pad a year below 1000 (others
  pad it to four digits). From 1000 on the year has its four digits everywhere.
\<close>

definition strftime :: "datetime \<Rightarrow> string" where
  "strftime d =
     pad2 (dt_day d) @ ''-'' @ pad2 (dt_month d) @ ''-'' @ str_nat (dt_year d) @ '' ''
       @ pad2 (dt_hour d) @ '':'' @ pad2 (dt_month d)"

section \<open>The domain model\<close>

record Commit =
  c_url :: pyval
  c_author :: pyval
  c_message :: pyval
  c_timestamp :: datetime

text \<open>\<^verbatim>\<open>Commit.__init__\<close>: the message is cut to its first 90 characters.\<close>

definition Commit_init :: "pyval \<Rightarrow> pyval \<Rightarrow> pyval \<Rightarrow> datetime \<Rightarrow> error + Commit" where
  "Commit_init url author message timestamp =
     (case py_slice_stop 90 message of
        Inl e \<Rightarrow> Inl e
      | Inr m \<Rightarrow> Inr \<lparr>c_url = url, c_author = author, c_message = m, c_timestamp = timestamp\<rparr>)"

definition get_timestamp :: "Commit \<Rightarrow> datetime" where
  "get_timestamp c = c_timestamp c"

definition Commit_get_dict :: "Commit \<Rightarrow> (string \<times> pyval) list" where
  "Commit_get_dict c =
     [(''author'', c_author c),
      (''message'', c_message c),
      (''timestamp'', PStr (strftime (c_timestamp c))),
      (''url'', c_url c)]"

record Branch =
  b_name :: pyval
  b_last_commit :: Commit

definition Branch_init :: "pyval \<Rightarrow> Commit \<Rightarrow> Branch" where
  "Branch_init name last_commit = \<lparr>b_name = name, b_last_commit = last_commit\<rparr>"

definition get_last_commit :: "Branch \<Rightarrow> Commit" where
  "get_last_commit b = b_last_commit b"

definition get_name :: "Branch \<Rightarrow> pyval" where
  "get_name b = b_name b"

text \<open>
  The wall clock is a sequence of readings: the \<open>t\<close>-th call of \<^verbatim>\<open>datetime.today()\<close>
  returns \<open>clk t\<close>. A function that reads the clock takes the number of readings made so
  far and returns it updated.
\<close>

type_synonym clock = "nat \<Rightarrow> datetime"

definition today :: "clock \<Rightarrow> nat \<Rightarrow> datetime \<times> nat" where
  "today clk t = (clk t, Suc t)"

definition Branch_get_dict :: "clock \<Rightarrow> Branch \<Rightarrow> nat \<Rightarrow> (string \<times> pyval) list \<times> nat" where
  "Branch_get_dict clk b t =
     (let (now, t') = today clk t;
          time_since_last_commit = dt_sub now (get_timestamp (b_last_commit b));
          last_commit_dict = Commit_get_dict (b_last_commit b)
      in ([(''name'', b_name b),
           (''days_since_last_commit'', PInt (td_days time_since_last_commit))]
            @ last_commit_dict, t'))"

definition is_active :: "clock \<Rightarrow> Branch \<Rightarrow> timedelta \<Rightarrow> nat \<Rightarrow> bool \<times> nat" where
  "is_active clk b time_inactive t =
     (let (now, t') = today clk t
      in (dt_sub now (get_timestamp (b_last_commit b)) < time_inactive, t'))"

section \<open>The result mapper\<close>

definition parse_commit_result :: "pyval \<Rightarrow> error + Commit" where
  "parse_commit_result commit =
     (case py_get commit ''message'' of Inl e \<Rightarrow> Inl e | Inr message \<Rightarrow>
     (case py_get commit ''url'' of Inl e \<Rightarrow> Inl e | Inr url \<Rightarrow>
     (case py_get commit ''author'' of Inl e \<Rightarrow> Inl e | Inr a \<Rightarrow>
     (case py_get a ''name'' of Inl e \<Rightarrow> Inl e | Inr author \<Rightarrow>
     (case py_get commit ''timestamp'' of Inl e \<Rightarrow> Inl e | Inr ts \<Rightarrow>
     (case py_slice_stop (- 6) ts of Inl e \<Rightarrow> Inl e | Inr stripped \<Rightarrow>
     (case py_strptime stripped of Inl e \<Rightarrow> Inl e | Inr timestamp \<Rightarrow>
      Commit_init url author message timestamp)))))))"

definition parse_branch_result :: "pyval \<Rightarrow> error + Branch" where
  "parse_branch_result branch =
     (case py_get branch ''name'' of Inl e \<Rightarrow> Inl e | Inr name \<Rightarrow>
     (case py_get branch ''commit'' of Inl e \<Rightarrow> Inl e | Inr c \<Rightarrow>
     (case parse_commit_result c of Inl e \<Rightarrow> Inl e | Inr last_commit \<Rightarrow>
      Inr (Branch_init name last_commit))))"

text \<open>
  The loop of \<^verbatim>\<open>parse_repository_results\<close>: \<open>branches\<close> is the list built so far, and the
  first record that fails ends the loop with its error.
\<close>

fun parse_loop :: "Branch list \<Rightarrow> pyval list \<Rightarrow> error + Branch list" where
  "parse_loop branches [] = Inr branches"
| "parse_loop branches (branch_result # results) =
     (case parse_branch_result branch_result of
        Inl e \<Rightarrow> Inl e
      | Inr branch \<Rightarrow> parse_loop (branches @ [branch]) results)"

text \<open>
  \<^verbatim>\<open>for branch_result in results\<close> on any value: a list gives its items, a dict its keys, a
  string its characters, and the other values cannot be iterated.
\<close>

fun py_iter :: "pyval \<Rightarrow> error + pyval list" where
  "py_iter (PList xs) = Inr xs"
| "py_iter (PDict kvs) = Inr (map (\<lambda>kv. PStr (fst kv)) kvs)"
| "py_iter (PStr s) = Inr (map (\<lambda>c. PStr [c]) s)"
| "py_iter _ = Inl TypeError"

definition parse_repository_results :: "pyval \<Rightarrow> error + Branch list" where
  "parse_repository_results results =
     (case py_iter results of Inl e \<Rightarrow> Inl e | Inr rs \<Rightarrow> parse_loop [] rs)"

section \<open>The repository collection\<close>

record Repository =
  r_name :: string
  r_branches :: "Branch list"

definition Repository_init :: "string \<Rightarrow> Branch list \<Rightarrow> Repository" where
  "Repository_init name branches = \<lparr>r_name = name, r_branches = branches\<rparr>"

text \<open>
  The comprehension of \<^verbatim>\<open>get_inactive_branches\<close>: the branches are visited in order, each
  visit reads the clock once in \<open>is_active\<close>, and a branch is kept when it is not active.
\<close>

fun inactive_loop :: "clock \<Rightarrow> timedelta \<Rightarrow> Branch list \<Rightarrow> nat \<Rightarrow> Branch list \<times> nat" where
  "inactive_loop clk time_inactive [] t = ([], t)"
| "inactive_loop clk time_inactive (branch # rest) t =
     (let (active, t1) = is_active clk branch time_inactive t;
          (kept, t2) = inactive_loop clk time_inactive rest t1
      in (if \<not> active then branch # kept else kept, t2))"

definition get_inactive_branches ::
  "clock \<Rightarrow> Repository \<Rightarrow> timedelta \<Rightarrow> nat \<Rightarrow> Branch list \<times> nat" where
  "get_inactive_branches clk repo time_inactive t =
     inactive_loop clk time_inactive (r_branches repo) t"

text \<open>
  \<^verbatim>\<open>sorted(branches, key=...)\<close> is a stable ascending sort, and so is \<^const>\<open>sort_key\<close>;
  two stable sorts of one list by one key give the same list.
\<close>

definition sorted_branches :: "bool \<Rightarrow> Branch list \<Rightarrow> Branch list" where
  "sorted_branches sort_by_datetime branches =
     (if sort_by_datetime
      then sort_key (\<lambda>branch. dt_key (get_timestamp (get_last_commit branch))) branches
      else branches)"

text \<open>The rows \<^verbatim>\<open>[[*branch.get_dict().values()] for branch in sorted_branches]\<close>.\<close>

fun rows_loop :: "clock \<Rightarrow> Branch list \<Rightarrow> nat \<Rightarrow> pyval list list \<times> nat" where
  "rows_loop clk [] t = ([], t)"
| "rows_loop clk (branch # rest) t =
     (let (d, t1) = Branch_get_dict clk branch t;
          (rows, t2) = rows_loop clk rest t1
      in (map snd d # rows, t2))"

text \<open>
  What \<^verbatim>\<open>display_tabulate\<close> hands to \<^verbatim>\<open>tabulate\<close> and prints: the header names and the rows.
  The headers are the keys of the first branch's dict, and indexing an empty list raises.
\<close>

record table =
  t_headers :: "string list"
  t_rows :: "pyval list list"

definition display_tabulate :: "clock \<Rightarrow> Repository \<Rightarrow> bool \<Rightarrow> nat \<Rightarrow> (error + table) \<times> nat" where
  "display_tabulate clk repo sort_by_datetime t =
     (let sb = sorted_branches sort_by_datetime (r_branches repo);
          (data, t1) = rows_loop clk sb t
      in (case sb of
            [] \<Rightarrow> (Inl IndexError, t1)
          | first # _ \<Rightarrow>
              (let (d, t2) = Branch_get_dict clk first t1
               in (Inr \<lparr>t_headers = map fst d, t_rows = data\<rparr>, t2))))"

section \<open>The API client\<close>

record Gitea =
  g_gitea :: string
  g_owner :: string
  g_repository :: string
  g_headers :: "(string \<times> string) list"

text \<open>
  The constructor of the access-token variant; the variant with a user name and a password
  sets only the content type here and gives the credentials to the session.
\<close>

definition Gitea_init :: "string \<Rightarrow> string \<Rightarrow> string \<Rightarrow> string \<Rightarrow> Gitea" where
  "Gitea_init gitea_server access_token owner repository =
     \<lparr>g_gitea = gitea_server, g_owner = owner, g_repository = repository,
      g_headers = [(''Content-type'', ''application/json''),
                   (''Authorization'', ''token '' @ access_token)]\<rparr>"

definition get_url :: "Gitea \<Rightarrow> string \<Rightarrow> string" where
  "get_url g endpoint = g_gitea g @ ''/api/v1/repos/'' @ endpoint"

record response =
  status_code :: int
  resp_url :: string
  resp_text :: string

text \<open>An integer in an f-string, with its sign.\<close>

definition str_int :: "int \<Rightarrow> string" where
  "str_int i = (if i < 0 then ''-'' @ str_nat (nat (- i)) else str_nat (nat i))"

text \<open>
  The server and the JSON decoder are outside the program: \<open>http\<close> is what the GET of a URL
  with some headers gives, a response or the exception of the transport, and \<open>loads\<close> is
  \<^verbatim>\<open>json.loads\<close>, \<open>None\<close> where it raises.
\<close>

type_synonym http = "string \<Rightarrow> (string \<times> string) list \<Rightarrow> error + response"

definition get_branches :: "http \<Rightarrow> (string \<Rightarrow> pyval option) \<Rightarrow> Gitea \<Rightarrow> error + pyval" where
  "get_branches http loads g =
     (let endpoint = g_owner g @ ''/'' @ g_repository g @ ''/branches''
      in (case http (get_url g endpoint) (g_headers g) of
            Inl e \<Rightarrow> Inl e
          | Inr request \<Rightarrow>
              if status_code request \<notin> set [200, 2001]
              then Inl (Exception (''Received status code: '' @ str_int (status_code request)
                                     @ '' ('' @ resp_url request @ '')''))
              else (case loads (resp_text request) of
                      None \<Rightarrow> Inl JSONDecodeError
                    | Some v \<Rightarrow> Inr v)))"

section \<open>The entry point\<close>

record args =
  a_access_token :: string
  a_gitea_url :: string
  a_owner :: string
  a_repository :: string
  a_days :: "int option"

text \<open>A run ends with the table printed, or with the exception logged and no table.\<close>

datatype outcome = Printed table | Logged error

definition main :: "http \<Rightarrow> (string \<Rightarrow> pyval option) \<Rightarrow> clock \<Rightarrow> args \<Rightarrow> outcome" where
  "main http loads clk a =
     (let g = Gitea_init (a_gitea_url a) (a_access_token a) (a_owner a) (a_repository a)
      in (case get_branches http loads g of Inl e \<Rightarrow> Logged e | Inr results \<Rightarrow>
         (case parse_repository_results results of Inl e \<Rightarrow> Logged e | Inr branches \<Rightarrow>
         (let repo = Repository_init ''FWSW_Platform'' branches
          in (case (case a_days a of None \<Rightarrow> Inl TypeError | Some d \<Rightarrow> timedelta_of_days d) of
                Inl e \<Rightarrow> Logged e
              | Inr time_inactive \<Rightarrow>
                 (let (inactive, t1) = get_inactive_branches clk repo time_inactive 0;
                      inactive_repo = Repository_init ''FWSW_Platform'' inactive
                  in (case fst (display_tabulate clk inactive_repo True t1) of
                        Inl e \<Rightarrow> Logged e
                      | Inr tbl \<Rightarrow> Printed tbl)))))))"

section \<open>Example inputs\<close>

text \<open>Three branches whose last commits are of 5, 1 and 3 January 2023, in this order.\<close>

definition commit_on :: "nat \<Rightarrow> Commit" where
  "commit_on d = \<lparr>c_url = PStr ''u'', c_author = PStr ''a'', c_message = PStr ''m'',
     c_timestamp = \<lparr>dt_year = 2023, dt_month = 1, dt_day = d, dt_hour = 0, dt_minute = 0,
                    dt_second = 0, dt_microsecond = 0\<rparr>\<rparr>"

definition three_branches :: Repository where
  "three_branches = \<lparr>r_name = ''r'', r_branches =
     [\<lparr>b_name = PStr ''fifth'', b_last_commit = commit_on 5\<rparr>,
      \<lparr>b_name = PStr ''first'', b_last_commit = commit_on 1\<rparr>,
      \<lparr>b_name = PStr ''third'', b_last_commit = commit_on 3\<rparr>]\<rparr>"

text \<open>Two branches with the same timestamp after a later one.\<close>

definition tied_branches :: Repository where
  "tied_branches = \<lparr>r_name = ''r'', r_branches =
     [\<lparr>b_name = PStr ''late'', b_last_commit = commit_on 3\<rparr>,
      \<lparr>b_name = PStr ''a'', b_last_commit = commit_on 1\<rparr>,
      \<lparr>b_name = PStr ''b'', b_last_commit = commit_on 1\<rparr>]\<rparr>"

text \<open>A reading of the clock.\<close>

definition feb_first :: datetime where
  "feb_first = \<lparr>dt_year = 2023, dt_month = 2, dt_day = 1, dt_hour = 12, dt_minute = 30,
                 dt_second = 0, dt_microsecond = 0\<rparr>"

text \<open>
  A raw branch record as the server sends it, with a given commit message and timestamp,
  and the commit and branch it is mapped to when the timestamp is that of 22 June 2023,
  10:15:30.
\<close>

definition june_22 :: datetime where
  "june_22 = \<lparr>dt_year = 2023, dt_month = 6, dt_day = 22, dt_hour = 10, dt_minute = 15,
                dt_second = 30, dt_microsecond = 0\<rparr>"

definition author_fields :: "(string \<times> pyval) list" where
  "author_fields = [(''name'', PStr ''ann''), (''email'', PStr ''ann@example.org'')]"

definition raw_commit_fields :: "string \<Rightarrow> string \<Rightarrow> (string \<times> pyval) list" where
  "raw_commit_fields message timestamp =
     [(''author'', PDict author_fields),
      (''message'', PStr message),
      (''timestamp'', PStr timestamp),
      (''url'', PStr ''https://git.example.org/c/1'')]"

definition raw_commit :: "string \<Rightarrow> string \<Rightarrow> pyval" where
  "raw_commit message timestamp = PDict (raw_commit_fields message timestamp)"

definition raw_branch_fields :: "string \<Rightarrow> string \<Rightarrow> (string \<times> pyval) list" where
  "raw_branch_fields message timestamp =
     [(''name'', PStr ''main''), (''commit'', raw_commit message timestamp)]"

definition raw_branch :: "string \<Rightarrow> string \<Rightarrow> pyval" where
  "raw_branch message timestamp = PDict (raw_branch_fields message timestamp)"

definition mapped_commit :: "string \<Rightarrow> Commit" where
  "mapped_commit message =
     \<lparr>c_url = PStr ''https://git.example.org/c/1'', c_author = PStr ''ann'',
      c_message = PStr message, c_timestamp = june_22\<rparr>"

definition mapped_branch :: "string \<Rightarrow> Branch" where
  "mapped_branch message = \<lparr>b_name = PStr ''main'', b_last_commit = mapped_commit message\<rparr>"

text \<open>
  A server that answers every request with a given status code and body, a decoder that
  knows the empty JSON array, and the arguments of a run.
\<close>

definition respond :: "int \<Rightarrow> string \<Rightarrow> http" where
  "respond code body url headers = Inr \<lparr>status_code = code, resp_url = url, resp_text = body\<rparr>"

definition loads_list :: "string \<Rightarrow> pyval option" where
  "loads_list text = (if text = ''[]'' then Some (PList []) else None)"

definition example_args :: args where
  "example_args = \<lparr>a_access_token = ''secret'', a_gitea_url = ''https://git.example.org'',
     a_owner = ''rls'', a_repository = ''fw'', a_days = Some 30\<rparr>"

definition example_gitea :: Gitea where
  "example_gitea = Gitea_init ''https://git.example.org'' ''secret'' ''rls'' ''fw''"

section \<open>Inactive branches\<close>

lemma inactive_loop_clock:
  "inactive_loop clk T bs t =
     (map snd (filter (\<lambda>(i, b). T \<le> dt_sub (clk i) (get_timestamp (get_last_commit b)))
                 (enumerate t bs)), t + length bs)"
  by (induction bs arbitrary: t)
     (simp_all add: is_active_def today_def get_last_commit_def not_less)

lemma filter_enumerate_snd:
  "map snd (filter (\<lambda>(i, b). P b) (enumerate t bs)) = filter P bs"
  by (induction bs arbitrary: t) simp_all

lemma inactive_loop_fixed_now:
  "fst (inactive_loop (\<lambda>_. N) T bs t) =
     filter (\<lambda>b. T \<le> dt_sub N (get_timestamp (get_last_commit b))) bs"
  by (simp add: inactive_loop_clock filter_enumerate_snd)

text \<open>
  C1. When the clock reads \<open>N\<close> at every call, \<open>get_inactive_branches\<close> returns, in the
  order of the input, exactly the branches with \<open>N - lastCommit.timestamp \<ge> T\<close>; these are
  the branches that \<open>is_active\<close> rejects, and a branch whose age is exactly the threshold is
  among them. For a clock that moves between the calls, the branch visited at reading \<open>i\<close>
  is judged against \<open>clk i\<close>.
\<close>

theorem get_inactive_branches_spec:
  "fst (get_inactive_branches (\<lambda>_. N) repo T t) =
     filter (\<lambda>b. T \<le> dt_sub N (get_timestamp (get_last_commit b))) (r_branches repo)
   \<and> fst (get_inactive_branches (\<lambda>_. N) repo T t) =
     filter (\<lambda>b. \<not> fst (is_active (\<lambda>_. N) b T t')) (r_branches repo)
   \<and> \<not> fst (is_active (\<lambda>_. N) b (dt_sub N (get_timestamp (get_last_commit b))) t')
   \<and> fst (get_inactive_branches clk repo T t) =
     map snd (filter (\<lambda>(i, b). T \<le> dt_sub (clk i) (get_timestamp (get_last_commit b)))
                (enumerate t (r_branches repo)))"
proof -
  let ?old = "\<lambda>b. T \<le> dt_sub N (get_timestamp (get_last_commit b))"
  have eq: "(\<lambda>b. \<not> fst (is_active (\<lambda>_. N) b T t')) = ?old"
    by (simp add: is_active_def today_def get_last_commit_def not_less fun_eq_iff)
  have one: "fst (get_inactive_branches (\<lambda>_. N) repo T t) = filter ?old (r_branches repo)"
    by (simp add: get_inactive_branches_def inactive_loop_fixed_now)
  have boundary:
    "\<not> fst (is_active (\<lambda>_. N) b (dt_sub N (get_timestamp (get_last_commit b))) t')"
    by (simp add: is_active_def today_def get_last_commit_def)
  have any_clock: "fst (get_inactive_branches clk repo T t) =
     map snd (filter (\<lambda>(i, b). T \<le> dt_sub (clk i) (get_timestamp (get_last_commit b)))
                (enumerate t (r_branches repo)))"
    by (simp add: get_inactive_branches_def inactive_loop_clock)
  from one boundary any_clock show ?thesis
    unfolding eq by blast
qed

section \<open>Display\<close>

lemma rows_loop_rows:
  "rows_loop clk bs t =
     (map (\<lambda>(i, b). map snd (fst (Branch_get_dict clk b i))) (enumerate t bs), t + length bs)"
  by (induction bs arbitrary: t) (simp_all add: Branch_get_dict_def today_def)

lemma Branch_get_dict_keys:
  "map fst (fst (Branch_get_dict clk b t)) =
     [''name'', ''days_since_last_commit'', ''author'', ''message'', ''timestamp'', ''url'']"
  by (simp add: Branch_get_dict_def today_def Commit_get_dict_def)

lemma display_tabulate_nonempty:
  assumes "r_branches repo \<noteq> []"
  shows "fst (display_tabulate clk repo s t) =
     Inr \<lparr>t_headers = [''name'', ''days_since_last_commit'', ''author'', ''message'',
                       ''timestamp'', ''url''],
          t_rows = map (\<lambda>(i, b). map snd (fst (Branch_get_dict clk b i)))
                     (enumerate t (sorted_branches s (r_branches repo)))\<rparr>"
proof -
  have "sorted_branches s (r_branches repo) \<noteq> []"
    using assms by (auto simp: sorted_branches_def dest!: arg_cong [where f = length])
  then obtain b0 rest where sb: "sorted_branches s (r_branches repo) = b0 # rest"
    by (cases "sorted_branches s (r_branches repo)") auto
  have "fst (display_tabulate clk repo s t) =
        Inr \<lparr>t_headers = map fst (fst (Branch_get_dict clk b0 (t + length (b0 # rest)))),
             t_rows = fst (rows_loop clk (b0 # rest) t)\<rparr>"
    unfolding display_tabulate_def Let_def sb rows_loop_rows
    by (simp add: split_beta)
  then show ?thesis
    unfolding sb by (simp only: Branch_get_dict_keys rows_loop_rows fst_conv)
qed

text \<open>
  C2. For a repository with at least one branch, \<open>display_tabulate\<close> with sorting hands to
  the table one row per branch, in the order of \<open>sorted_branches\<close>: ascending by the
  timestamp of the last commit, a permutation of the branches, and stable (the branches
  with any one timestamp \<open>k\<close> keep their relative order). Without sorting the rows are in
  the original order.
\<close>

theorem display_tabulate_order:
  "r_branches repo \<noteq> [] \<Longrightarrow>
     fst (display_tabulate clk repo True t) =
       Inr \<lparr>t_headers = [''name'', ''days_since_last_commit'', ''author'', ''message'',
                         ''timestamp'', ''url''],
            t_rows = map (\<lambda>(i, b). map snd (fst (Branch_get_dict clk b i)))
                       (enumerate t (sorted_branches True (r_branches repo)))\<rparr>
     \<and> sorted (map (\<lambda>b. dt_key (get_timestamp (get_last_commit b)))
                (sorted_branches True (r_branches repo)))
     \<and> mset (sorted_branches True (r_branches repo)) = mset (r_branches repo)
     \<and> filter (\<lambda>b. dt_key (get_timestamp (get_last_commit b)) = k)
                (sorted_branches True (r_branches repo))
         = filter (\<lambda>b. dt_key (get_timestamp (get_last_commit b)) = k) (r_branches repo)
     \<and> fst (display_tabulate clk repo False t) =
       Inr \<lparr>t_headers = [''name'', ''days_since_last_commit'', ''author'', ''message'',
                         ''timestamp'', ''url''],
            t_rows = map (\<lambda>(i, b). map snd (fst (Branch_get_dict clk b i)))
                       (enumerate t (r_branches repo))\<rparr>"
proof -
  assume ne: "r_branches repo \<noteq> []"
  have f: "sorted_branches False (r_branches repo) = r_branches repo"
    by (simp add: sorted_branches_def)
  show ?thesis
    using display_tabulate_nonempty [OF ne, of clk True t]
      display_tabulate_nonempty [OF ne, of clk False t]
    unfolding f
    by (simp add: sorted_branches_def sort_key_stable)
qed

text \<open>
  The branches of 5, 1 and 3 January are displayed in the order 1, 3, 5 with sorting, and in
  their own order without; two branches of 1 January keep their order before one of
  3 January.
\<close>

theorem display_tabulate_order_witness:
  "r_branches three_branches \<noteq> []
   \<and> map get_name (sorted_branches True (r_branches three_branches))
       = [PStr ''first'', PStr ''third'', PStr ''fifth'']
   \<and> map hd (t_rows (projr (fst (display_tabulate (\<lambda>_. feb_first) three_branches True 0))))
       = [PStr ''first'', PStr ''third'', PStr ''fifth'']
   \<and> map hd (t_rows (projr (fst (display_tabulate (\<lambda>_. feb_first) three_branches False 0))))
       = [PStr ''fifth'', PStr ''first'', PStr ''third'']
   \<and> r_branches tied_branches \<noteq> []
   \<and> map hd (t_rows (projr (fst (display_tabulate (\<lambda>_. feb_first) tied_branches True 0))))
       = [PStr ''a'', PStr ''b'', PStr ''late'']"
proof -
  have ne2: "r_branches tied_branches \<noteq> []"
    by (simp add: tied_branches_def)
  have same2: "sorted_branches True (r_branches tied_branches) =
     [\<lparr>b_name = PStr ''a'', b_last_commit = commit_on 1\<rparr>,
      \<lparr>b_name = PStr ''b'', b_last_commit = commit_on 1\<rparr>,
      \<lparr>b_name = PStr ''late'', b_last_commit = commit_on 3\<rparr>]"
    by (simp add: tied_branches_def sorted_branches_def commit_on_def
          get_timestamp_def get_last_commit_def dt_key_def)
  have ne: "r_branches three_branches \<noteq> []"
    by (simp add: three_branches_def)
  have order: "map get_name (sorted_branches True (r_branches three_branches))
       = [PStr ''first'', PStr ''third'', PStr ''fifth'']"
    by (simp add: three_branches_def sorted_branches_def commit_on_def get_name_def
          get_timestamp_def get_last_commit_def dt_key_def)
  have same: "sorted_branches True (r_branches three_branches) =
     [\<lparr>b_name = PStr ''first'', b_last_commit = commit_on 1\<rparr>,
      \<lparr>b_name = PStr ''third'', b_last_commit = commit_on 3\<rparr>,
      \<lparr>b_name = PStr ''fifth'', b_last_commit = commit_on 5\<rparr>]"
    by (simp add: three_branches_def sorted_branches_def commit_on_def
          get_timestamp_def get_last_commit_def dt_key_def)
  show ?thesis
    using display_tabulate_order [OF ne, of "\<lambda>_. feb_first" 0]
      display_tabulate_order [OF ne2, of "\<lambda>_. feb_first" 0] ne ne2 order
    by (simp add: same same2) (simp add: three_branches_def Branch_get_dict_def today_def)
qed

section \<open>The mapper\<close>

lemma slice_stop_neg6: "slice_stop (- 6) s = take (length s - 6) s"
  by (simp add: slice_stop_def nat_diff_distrib')

lemma parse_commit_result_PDict:
  "parse_commit_result (PDict c) =
     (case dict_get c ''author'' of
        PDict a \<Rightarrow>
          (case dict_get c ''timestamp'' of
             PStr s \<Rightarrow>
               (case strptime (take (length s - 6) s) of
                  Inl e \<Rightarrow> Inl e
                | Inr dt \<Rightarrow>
                    Commit_init (dict_get c ''url'') (dict_get a ''name'')
                      (dict_get c ''message'') dt)
           | _ \<Rightarrow> Inl TypeError)
      | _ \<Rightarrow> Inl AttributeError)"
  by (simp add: parse_commit_result_def slice_stop_neg6 split: pyval.splits sum.splits)

lemma parse_commit_result_not_dict:
  "\<forall>c. v \<noteq> PDict c \<Longrightarrow> parse_commit_result v = Inl AttributeError"
  by (cases v) (simp_all add: parse_commit_result_def)

lemma Commit_init_ok_iff:
  "(\<exists>cm. Commit_init u a msg dt = Inr cm) \<longleftrightarrow> ((\<exists>m. msg = PStr m) \<or> (\<exists>ms. msg = PList ms))"
  by (cases msg) (simp_all add: Commit_init_def)

lemma parse_commit_result_ok_iff:
  "(\<exists>cm. parse_commit_result v = Inr cm) \<longleftrightarrow>
     (\<exists>c a s dt. v = PDict c \<and> dict_get c ''author'' = PDict a
        \<and> dict_get c ''timestamp'' = PStr s \<and> strptime (take (length s - 6) s) = Inr dt
        \<and> ((\<exists>m. dict_get c ''message'' = PStr m) \<or> (\<exists>ms. dict_get c ''message'' = PList ms)))"
proof (cases v)
  case (PDict c)
  show ?thesis
    unfolding PDict parse_commit_result_PDict
    using Commit_init_ok_iff [of "dict_get c ''url''" _ "dict_get c ''message''"]
    by (auto split: pyval.splits sum.splits)
qed (simp_all add: parse_commit_result_not_dict)

lemma parse_branch_result_PDict:
  "parse_branch_result (PDict kvs) =
     (case parse_commit_result (dict_get kvs ''commit'') of
        Inl e \<Rightarrow> Inl e
      | Inr cm \<Rightarrow> Inr \<lparr>b_name = dict_get kvs ''name'', b_last_commit = cm\<rparr>)"
  by (simp add: parse_branch_result_def Branch_init_def split: sum.splits)

lemma parse_branch_result_not_dict:
  "\<forall>kvs. v \<noteq> PDict kvs \<Longrightarrow> parse_branch_result v = Inl AttributeError"
  by (cases v) (simp_all add: parse_branch_result_def)

lemma parse_loop_ok_iff:
  "parse_loop acc rs = Inr bs \<longleftrightarrow>
     (\<exists>new. bs = acc @ new \<and> map parse_branch_result rs = map Inr new)"
proof (induction rs arbitrary: acc)
  case Nil
  then show ?case by auto
next
  case (Cons r rs)
  show ?case
  proof (cases "parse_branch_result r")
    case (Inl e)
    then show ?thesis by (auto simp: map_eq_Cons_conv)
  next
    case (Inr b)
    then show ?thesis
      by (auto simp: Cons.IH map_eq_Cons_conv)
  qed
qed

subsection \<open>What the parser accepts\<close>

lemma one_digit_len: "(v, r) \<in> set (one_digit ok s) \<Longrightarrow> length s = length r + 1"
  by (auto simp: one_digit_def split: list.splits option.splits if_splits)

lemma two_digits_len: "(v, r) \<in> set (two_digits ok s) \<Longrightarrow> length s = length r + 2"
  by (auto simp: two_digits_def split: list.splits option.splits if_splits)

lemma re_Y_len: "(v, r) \<in> set (re_Y s) \<Longrightarrow> length s = length r + 4"
  by (auto simp: re_Y_def split: list.splits option.splits if_splits)

lemma re_lit_len: "r \<in> set (re_lit cs s) \<Longrightarrow> length s = length r + 1"
  by (auto simp: re_lit_def split: list.splits if_splits)

lemma re_m_len: "(v, r) \<in> set (re_m s) \<Longrightarrow> length r + 1 \<le> length s \<and> length s \<le> length r + 2"
  by (auto simp: re_m_def dest: one_digit_len two_digits_len)

lemma re_d_len: "(v, r) \<in> set (re_d s) \<Longrightarrow> length r + 1 \<le> length s \<and> length s \<le> length r + 2"
  by (auto simp: re_d_def dest: one_digit_len two_digits_len split: list.splits if_splits)

lemma re_H_len: "(v, r) \<in> set (re_H s) \<Longrightarrow> length r + 1 \<le> length s \<and> length s \<le> length r + 2"
  by (auto simp: re_H_def dest: one_digit_len two_digits_len)

lemma re_M_len: "(v, r) \<in> set (re_M s) \<Longrightarrow> length r + 1 \<le> length s \<and> length s \<le> length r + 2"
  by (auto simp: re_M_def dest: one_digit_len two_digits_len)

lemma re_S_len: "(v, r) \<in> set (re_S s) \<Longrightarrow> length r + 1 \<le> length s \<and> length s \<le> length r + 2"
  by (auto simp: re_S_def dest: one_digit_len two_digits_len)

lemma format_regex_match_len:
  assumes "(Y, m, d, H, M, S, rest) \<in> set (format_regex_match s)"
  shows "length rest + 14 \<le> length s \<and> length s \<le> length rest + 19"
proof -
  from assms obtain r1 r2 r3 r4 r5 r6 r7 r8 r9 r10 where
    "(Y, r1) \<in> set (re_Y s)" "r2 \<in> set (re_lit ''-'' r1)"
    "(m, r3) \<in> set (re_m r2)" "r4 \<in> set (re_lit ''-'' r3)"
    "(d, r5) \<in> set (re_d r4)" "r6 \<in> set (re_lit ''Tt'' r5)"
    "(H, r7) \<in> set (re_H r6)" "r8 \<in> set (re_lit '':'' r7)"
    "(M, r9) \<in> set (re_M r8)" "r10 \<in> set (re_lit '':'' r9)"
    "(S, rest) \<in> set (re_S r10)"
    unfolding format_regex_match_def by auto
  then show ?thesis
    using re_Y_len [of Y r1 s] re_lit_len [of r2 "''-''" r1] re_m_len [of m r3 r2]
      re_lit_len [of r4 "''-''" r3] re_d_len [of d r5 r4] re_lit_len [of r6 "''Tt''" r5]
      re_H_len [of H r7 r6] re_lit_len [of r8 "'':''" r7] re_M_len [of M r9 r8]
      re_lit_len [of r10 "'':''" r9] re_S_len [of S rest r10]
    by linarith
qed

lemma strptime_length: "strptime s = Inr dt \<Longrightarrow> 14 \<le> length s \<and> length s \<le> 19"
proof -
  assume ok: "strptime s = Inr dt"
  then obtain Y m d H M S rest ms where fm: "format_regex_match s = (Y, m, d, H, M, S, rest) # ms"
    by (cases "format_regex_match s") (auto simp: strptime_def)
  with ok have "rest = []"
    by (auto simp: strptime_def split: if_splits)
  moreover have "(Y, m, d, H, M, S, rest) \<in> set (format_regex_match s)"
    by (simp add: fm)
  ultimately show ?thesis
    using format_regex_match_len by fastforce
qed

lemma strptime_error: "strptime s = Inl e \<Longrightarrow> e = ValueError"
  by (auto simp: strptime_def datetime_new_def split: list.splits if_splits prod.splits)


subsection \<open>The example record\<close>

lemma strptime_june_22: "strptime ''2023-06-22T10:15:30'' = Inr june_22"
  by (simp add: strptime_def format_regex_match_def re_Y_def re_m_def re_d_def re_H_def
        re_M_def re_S_def re_lit_def two_digits_def one_digit_def digit_of_def
        datetime_new_def days_in_month_def is_leap_def june_22_def)

lemma parse_raw_commit:
  "parse_commit_result (raw_commit m ''2023-06-22T10:15:30+00:00'') =
     Inr (mapped_commit (take 90 m))"
  by (simp add: raw_commit_def raw_commit_fields_def author_fields_def
        parse_commit_result_PDict dict_get_def
        strptime_june_22 Commit_init_def slice_stop_def mapped_commit_def)

lemma parse_raw_branch:
  "parse_branch_result (raw_branch m ''2023-06-22T10:15:30+00:00'') =
     Inr (mapped_branch (take 90 m))"
  by (simp add: raw_branch_def raw_branch_fields_def parse_branch_result_PDict dict_get_def parse_raw_commit
        mapped_branch_def)

subsection \<open>Message truncation\<close>

text \<open>
  C3. For a message that is a string, the constructor stores exactly its first 90 characters:
  the stored message has at most 90 characters, a message of at most 90 characters is
  stored unchanged, a message of 200 characters is stored as its first 90, and constructing
  again from the stored message gives the same commit. The commit that the mapper builds
  from a record holds the first 90 characters of the record's message, and \<open>get_dict\<close>
  reads the stored message back.
\<close>

theorem commit_message_truncated:
  "(\<exists>cm. Commit_init url author (PStr m) ts = Inr cm
      \<and> c_message cm = PStr (take 90 m)
      \<and> dict_get (Commit_get_dict cm) ''message'' = PStr (take 90 m)
      \<and> length (take 90 m) \<le> 90
      \<and> (length m \<le> 90 \<longrightarrow> c_message cm = PStr m)
      \<and> (length m = 200 \<longrightarrow> length (take 90 m) = 90)
      \<and> Commit_init url author (c_message cm) ts = Inr cm)
   \<and> (parse_commit_result (PDict c) = Inr cm' \<and> dict_get c ''message'' = PStr m
        \<longrightarrow> c_message cm' = PStr (take 90 m))"
proof -
  have "parse_commit_result (PDict c) = Inr cm' \<Longrightarrow> dict_get c ''message'' = PStr m
        \<Longrightarrow> c_message cm' = PStr (take 90 m)"
    by (auto simp: parse_commit_result_PDict Commit_init_def slice_stop_def
          split: pyval.splits sum.splits)
  then show ?thesis
    by (auto simp: Commit_init_def slice_stop_def Commit_get_dict_def dict_get_def)
qed

text \<open>
  A message of 13 characters is kept, and a message of 200 characters is cut to 90, by the
  constructor and by the mapper.
\<close>

theorem commit_message_truncated_witness:
  "length ''fix the build'' \<le> 90
   \<and> length (replicate 200 CHR ''x'') = 200
   \<and> parse_commit_result (PDict (raw_commit_fields (replicate 200 CHR ''x'')
          ''2023-06-22T10:15:30+00:00'')) = Inr (mapped_commit (replicate 90 CHR ''x''))
   \<and> dict_get (raw_commit_fields (replicate 200 CHR ''x'') ''2023-06-22T10:15:30+00:00'')
         ''message'' = PStr (replicate 200 CHR ''x'')
   \<and> c_message (mapped_commit (replicate 90 CHR ''x'')) = PStr (take 90 (replicate 200 CHR ''x''))
   \<and> (\<exists>cm. Commit_init PNone PNone (PStr ''fix the build'') june_22 = Inr cm
         \<and> c_message cm = PStr ''fix the build'')
   \<and> (\<exists>cm. Commit_init PNone PNone (PStr (replicate 200 CHR ''x'')) june_22 = Inr cm
         \<and> c_message cm = PStr (take 90 (replicate 200 CHR ''x''))
         \<and> length (take 90 (replicate 200 CHR ''x'')) = 90)"
proof -
  have hyp1: "parse_commit_result (PDict (raw_commit_fields (replicate 200 CHR ''x'')
          ''2023-06-22T10:15:30+00:00'')) = Inr (mapped_commit (replicate 90 CHR ''x''))"
    using parse_raw_commit [of "replicate 200 CHR ''x''"] by (simp add: raw_commit_def)
  have hyp2: "dict_get (raw_commit_fields (replicate 200 CHR ''x'') ''2023-06-22T10:15:30+00:00'')
         ''message'' = PStr (replicate 200 CHR ''x'')"
    by (simp add: raw_commit_fields_def dict_get_def)
  have len1: "length ''fix the build'' \<le> 90" and len2: "length (replicate 200 CHR ''x'') = 200"
    by simp_all
  from commit_message_truncated [of PNone PNone "''fix the build''" june_22
      "raw_commit_fields ''fix the build'' ''2023-06-22T10:15:30+00:00''"
      "mapped_commit ''fix the build''"]
    commit_message_truncated [of PNone PNone "replicate 200 CHR ''x''" june_22
      "raw_commit_fields (replicate 200 CHR ''x'') ''2023-06-22T10:15:30+00:00''"
      "mapped_commit (replicate 90 CHR ''x'')"]
    hyp1 hyp2 len1 len2
  show ?thesis by blast
qed


subsection \<open>The list of records\<close>

text \<open>
  C10. \<open>parse_repository_results\<close> on a list of records returns the list \<open>bs\<close> exactly when
  \<open>bs\<close> has the length of the input and its \<open>i\<close>-th branch is the one mapped from the \<open>i\<close>-th
  record: nothing is skipped, repeated or reordered.
\<close>

theorem parse_repository_results_in_order:
  "parse_repository_results (PList rs) = Inr bs \<longleftrightarrow>
     length bs = length rs \<and> (\<forall>i < length rs. parse_branch_result (rs ! i) = Inr (bs ! i))"
proof -
  have "parse_repository_results (PList rs) = Inr bs \<longleftrightarrow>
        map parse_branch_result rs = map Inr bs"
    by (simp add: parse_repository_results_def parse_loop_ok_iff)
  also have "\<dots> \<longleftrightarrow>
     length bs = length rs \<and> (\<forall>i < length rs. parse_branch_result (rs ! i) = Inr (bs ! i))"
    by (auto simp: list_eq_iff_nth_eq)
  finally show ?thesis .
qed


text \<open>Two records are mapped to two branches, in their order.\<close>

theorem parse_repository_results_in_order_witness:
  "parse_repository_results
      (PList [raw_branch ''one'' ''2023-06-22T10:15:30+00:00'',
              raw_branch ''two'' ''2023-06-22T10:15:30+00:00''])
     = Inr [mapped_branch ''one'', mapped_branch ''two'']
   \<and> length [mapped_branch ''one'', mapped_branch ''two'']
       = length [raw_branch ''one'' ''2023-06-22T10:15:30+00:00'',
                 raw_branch ''two'' ''2023-06-22T10:15:30+00:00'']
   \<and> parse_branch_result (raw_branch ''two'' ''2023-06-22T10:15:30+00:00'')
       = Inr (mapped_branch ''two'')"
  using parse_repository_results_in_order
    [of "[raw_branch ''one'' ''2023-06-22T10:15:30+00:00'',
          raw_branch ''two'' ''2023-06-22T10:15:30+00:00'']"
        "[mapped_branch ''one'', mapped_branch ''two'']"]
  by (simp add: parse_raw_branch less_Suc_eq all_conj_distrib)

subsection \<open>Reading the fields back\<close>

text \<open>
  C8. For a record with a commit object, an author object, a message string of at most 90
  characters and a timestamp that parses, mapping succeeds, and the name, author, message
  and url read back from the branch and from its row are the values of the record.
\<close>

theorem mapping_round_trip:
  assumes "dict_get kvs ''commit'' = PDict c"
    and "dict_get c ''author'' = PDict a"
    and "dict_get c ''message'' = PStr m"
    and "length m \<le> 90"
    and "dict_get c ''timestamp'' = PStr s"
    and "strptime (take (length s - 6) s) = Inr dt"
  shows "\<exists>b. parse_branch_result (PDict kvs) = Inr b
           \<and> get_name b = dict_get kvs ''name''
           \<and> dict_get (Commit_get_dict (get_last_commit b)) ''author'' = dict_get a ''name''
           \<and> dict_get (Commit_get_dict (get_last_commit b)) ''message'' = PStr m
           \<and> dict_get (Commit_get_dict (get_last_commit b)) ''url'' = dict_get c ''url''
           \<and> dict_get (fst (Branch_get_dict clk b t)) ''name'' = dict_get kvs ''name''
           \<and> dict_get (fst (Branch_get_dict clk b t)) ''author'' = dict_get a ''name''
           \<and> dict_get (fst (Branch_get_dict clk b t)) ''message'' = PStr m
           \<and> dict_get (fst (Branch_get_dict clk b t)) ''url'' = dict_get c ''url''"
proof -
  have "parse_branch_result (PDict kvs) =
          Inr \<lparr>b_name = dict_get kvs ''name'',
               b_last_commit = \<lparr>c_url = dict_get c ''url'', c_author = dict_get a ''name'',
                                 c_message = PStr m, c_timestamp = dt\<rparr>\<rparr>"
    using assms
    by (simp add: parse_branch_result_PDict parse_commit_result_PDict Commit_init_def
          slice_stop_def)
  then show ?thesis
    by (simp add: get_name_def get_last_commit_def Commit_get_dict_def Branch_get_dict_def
          today_def dict_get_def)
qed

text \<open>The example record read back.\<close>

theorem mapping_round_trip_witness:
  "dict_get (raw_branch_fields ''fix the build'' ''2023-06-22T10:15:30+00:00'') ''commit''
       = PDict (raw_commit_fields ''fix the build'' ''2023-06-22T10:15:30+00:00'')
   \<and> dict_get (raw_commit_fields ''fix the build'' ''2023-06-22T10:15:30+00:00'') ''author''
       = PDict author_fields
   \<and> dict_get (raw_commit_fields ''fix the build'' ''2023-06-22T10:15:30+00:00'') ''message''
       = PStr ''fix the build''
   \<and> length ''fix the build'' \<le> 90
   \<and> dict_get (raw_commit_fields ''fix the build'' ''2023-06-22T10:15:30+00:00'') ''timestamp''
       = PStr ''2023-06-22T10:15:30+00:00''
   \<and> strptime (take (length ''2023-06-22T10:15:30+00:00'' - 6) ''2023-06-22T10:15:30+00:00'')
       = Inr june_22
   \<and> (\<exists>b. parse_branch_result
              (PDict (raw_branch_fields ''fix the build'' ''2023-06-22T10:15:30+00:00'')) = Inr b
         \<and> get_name b = PStr ''main''
         \<and> dict_get (Commit_get_dict (get_last_commit b)) ''author'' = PStr ''ann''
         \<and> dict_get (Commit_get_dict (get_last_commit b)) ''message'' = PStr ''fix the build''
         \<and> dict_get (Commit_get_dict (get_last_commit b)) ''url''
             = PStr ''https://git.example.org/c/1''
         \<and> dict_get (fst (Branch_get_dict (\<lambda>_. feb_first) b 0)) ''name'' = PStr ''main'')"
proof -
  have h1: "dict_get (raw_branch_fields ''fix the build'' ''2023-06-22T10:15:30+00:00'') ''commit''
       = PDict (raw_commit_fields ''fix the build'' ''2023-06-22T10:15:30+00:00'')"
    by (simp add: raw_branch_fields_def raw_commit_def dict_get_def)
  have h2: "dict_get (raw_commit_fields ''fix the build'' ''2023-06-22T10:15:30+00:00'') ''author''
       = PDict author_fields"
    by (simp add: raw_commit_fields_def dict_get_def)
  have h3: "dict_get (raw_commit_fields ''fix the build'' ''2023-06-22T10:15:30+00:00'') ''message''
       = PStr ''fix the build''"
    by (simp add: raw_commit_fields_def dict_get_def)
  have h4: "length ''fix the build'' \<le> 90"
    by simp
  have h5: "dict_get (raw_commit_fields ''fix the build'' ''2023-06-22T10:15:30+00:00'') ''timestamp''
       = PStr ''2023-06-22T10:15:30+00:00''"
    by (simp add: raw_commit_fields_def dict_get_def)
  have h6: "strptime (take (length ''2023-06-22T10:15:30+00:00'' - 6) ''2023-06-22T10:15:30+00:00'')
       = Inr june_22"
    by (simp add: strptime_june_22)
  have names: "dict_get (raw_branch_fields ''fix the build'' ''2023-06-22T10:15:30+00:00'') ''name''
       = PStr ''main''"
    "dict_get author_fields ''name'' = PStr ''ann''"
    "dict_get (raw_commit_fields ''fix the build'' ''2023-06-22T10:15:30+00:00'') ''url''
       = PStr ''https://git.example.org/c/1''"
    by (simp_all add: raw_branch_fields_def raw_commit_fields_def author_fields_def dict_get_def)
  from mapping_round_trip [OF h1 h2 h3 h4 h5 h6, of "\<lambda>_. feb_first" 0]
  show ?thesis
    unfolding names using h1 h2 h3 h4 h5 h6 by blast
qed

subsection \<open>The timestamp\<close>

text \<open>
  C4. For every timestamp string the mapper cuts off the last 6 characters, whatever they
  are (when the string has at least 6, what is cut is exactly 6 characters long), and gives
  what is left to \<open>strptime\<close> with the format \<^verbatim>\<open>%Y-%m-%dT%H:%M:%S\<close>; the commit has the naive
  date-time parsed from that, so what the 6 characters say is lost. The input
  \<^verbatim>\<open>2023-06-22T10:15:30+00:00\<close> is cut to \<^verbatim>\<open>2023-06-22T10:15:30\<close> and parses to 22 June 2023,
  10:15:30, and so does the same time with the offset \<^verbatim>\<open>-07:00\<close>.
\<close>

theorem timestamp_offset_stripped:
  "py_slice_stop (- 6) (PStr s) = Inr (PStr (take (length s - 6) s))
   \<and> (6 \<le> length s \<longrightarrow>
        (\<exists>offset. length offset = 6 \<and> s = take (length s - 6) s @ offset))
   \<and> (dict_get c ''author'' = PDict a \<and> dict_get c ''timestamp'' = PStr s
        \<and> dict_get c ''message'' = PStr m \<longrightarrow>
      parse_commit_result (PDict c) =
        (case strptime (take (length s - 6) s) of
           Inl e \<Rightarrow> Inl e
         | Inr dt \<Rightarrow> Inr \<lparr>c_url = dict_get c ''url'', c_author = dict_get a ''name'',
                          c_message = PStr (take 90 m), c_timestamp = dt\<rparr>))
   \<and> py_slice_stop (- 6) (PStr ''2023-06-22T10:15:30+00:00'') = Inr (PStr ''2023-06-22T10:15:30'')
   \<and> strptime ''2023-06-22T10:15:30'' = Inr june_22
   \<and> parse_commit_result (raw_commit msg ''2023-06-22T10:15:30+00:00'')
       = Inr (mapped_commit (take 90 msg))
   \<and> parse_commit_result (raw_commit msg ''2023-06-22T10:15:30-07:00'')
       = Inr (mapped_commit (take 90 msg))"
proof -
  have strip: "py_slice_stop (- 6) (PStr s) = Inr (PStr (take (length s - 6) s))"
    by (simp add: slice_stop_neg6)
  have mapper: "dict_get c ''author'' = PDict a \<and> dict_get c ''timestamp'' = PStr s
        \<and> dict_get c ''message'' = PStr m \<longrightarrow>
      parse_commit_result (PDict c) =
        (case strptime (take (length s - 6) s) of
           Inl e \<Rightarrow> Inl e
         | Inr dt \<Rightarrow> Inr \<lparr>c_url = dict_get c ''url'', c_author = dict_get a ''name'',
                          c_message = PStr (take 90 m), c_timestamp = dt\<rparr>)"
    by (simp add: parse_commit_result_PDict Commit_init_def slice_stop_def split: sum.splits)
  have six: "6 \<le> length s \<longrightarrow>
        (\<exists>offset. length offset = 6 \<and> s = take (length s - 6) s @ offset)"
    by (intro impI exI [of _ "drop (length s - 6) s"]) simp
  have example:
    "py_slice_stop (- 6) (PStr ''2023-06-22T10:15:30+00:00'') = Inr (PStr ''2023-06-22T10:15:30'')"
    by (simp add: slice_stop_def)
  have other_offset: "parse_commit_result (raw_commit msg ''2023-06-22T10:15:30-07:00'')
       = Inr (mapped_commit (take 90 msg))"
    by (simp add: raw_commit_def raw_commit_fields_def author_fields_def
        parse_commit_result_PDict dict_get_def strptime_june_22 Commit_init_def slice_stop_def
        mapped_commit_def)
  from strip six mapper example strptime_june_22 parse_raw_commit [of msg] other_offset
  show ?thesis by blast
qed

text \<open>The example commit record, with its author, message and timestamp.\<close>

theorem timestamp_offset_stripped_witness:
  "6 \<le> length ''2023-06-22T10:15:30+00:00''
   \<and> ''2023-06-22T10:15:30+00:00'' = ''2023-06-22T10:15:30'' @ ''+00:00''
   \<and> dict_get (raw_commit_fields ''fix'' ''2023-06-22T10:15:30+00:00'') ''author'' = PDict author_fields
   \<and> dict_get (raw_commit_fields ''fix'' ''2023-06-22T10:15:30+00:00'') ''timestamp''
       = PStr ''2023-06-22T10:15:30+00:00''
   \<and> dict_get (raw_commit_fields ''fix'' ''2023-06-22T10:15:30+00:00'') ''message'' = PStr ''fix''
   \<and> parse_commit_result (PDict (raw_commit_fields ''fix'' ''2023-06-22T10:15:30+00:00''))
       = Inr \<lparr>c_url = PStr ''https://git.example.org/c/1'', c_author = PStr ''ann'',
              c_message = PStr ''fix'', c_timestamp = june_22\<rparr>"
proof -
  have h: "dict_get (raw_commit_fields ''fix'' ''2023-06-22T10:15:30+00:00'') ''author''
       = PDict author_fields"
    "dict_get (raw_commit_fields ''fix'' ''2023-06-22T10:15:30+00:00'') ''timestamp''
       = PStr ''2023-06-22T10:15:30+00:00''"
    "dict_get (raw_commit_fields ''fix'' ''2023-06-22T10:15:30+00:00'') ''message'' = PStr ''fix''"
    by (simp_all add: raw_commit_fields_def dict_get_def)
  have v: "dict_get (raw_commit_fields ''fix'' ''2023-06-22T10:15:30+00:00'') ''url''
       = PStr ''https://git.example.org/c/1''"
    "dict_get author_fields ''name'' = PStr ''ann''"
    by (simp_all add: raw_commit_fields_def author_fields_def dict_get_def)
  from timestamp_offset_stripped [of "''2023-06-22T10:15:30+00:00''"
      "raw_commit_fields ''fix'' ''2023-06-22T10:15:30+00:00''" author_fields "''fix''"] h
  show ?thesis
    by (simp add: v strptime_june_22)
qed


subsection \<open>Records that fail\<close>

lemma Commit_init_error: "Commit_init u a msg dt = Inl e \<Longrightarrow> e = TypeError"
  by (cases msg) (simp_all add: Commit_init_def)

lemma parse_commit_result_error:
  "parse_commit_result v = Inl e \<Longrightarrow> e = AttributeError \<or> e = TypeError \<or> e = ValueError"
proof (cases v)
  case (PDict c)
  assume "parse_commit_result v = Inl e"
  then show ?thesis
    unfolding PDict parse_commit_result_PDict
    by (auto split: pyval.splits sum.splits dest: strptime_error Commit_init_error)
qed (simp_all add: parse_commit_result_not_dict)

lemma parse_branch_result_error:
  "parse_branch_result r = Inl e \<Longrightarrow> e = AttributeError \<or> e = TypeError \<or> e = ValueError"
proof (cases r)
  case (PDict kvs)
  assume "parse_branch_result r = Inl e"
  then show ?thesis
    unfolding PDict parse_branch_result_PDict
    by (auto split: sum.splits dest: parse_commit_result_error)
qed (simp_all add: parse_branch_result_not_dict)

lemma parse_branch_result_ok:
  "(\<exists>b. parse_branch_result r = Inr b) \<longleftrightarrow>
     (\<exists>fields c a s dt. r = PDict fields \<and> dict_get fields ''commit'' = PDict c
        \<and> dict_get c ''author'' = PDict a
        \<and> dict_get c ''timestamp'' = PStr s \<and> strptime (take (length s - 6) s) = Inr dt
        \<and> ((\<exists>m. dict_get c ''message'' = PStr m) \<or> (\<exists>ms. dict_get c ''message'' = PList ms)))"
proof (cases r)
  case (PDict kvs)
  have "(\<exists>b. parse_branch_result (PDict kvs) = Inr b) \<longleftrightarrow>
        (\<exists>cm. parse_commit_result (dict_get kvs ''commit'') = Inr cm)"
    by (auto simp: parse_branch_result_PDict split: sum.splits)
  then show ?thesis
    unfolding PDict parse_commit_result_ok_iff by auto
qed (simp_all add: parse_branch_result_not_dict)

lemma short_timestamp_fails:
  assumes "dict_get kvs ''commit'' = PDict c" "dict_get c ''author'' = PDict a"
    "dict_get c ''timestamp'' = PStr s" "length s < 20"
  shows "parse_branch_result (PDict kvs) = Inl ValueError"
proof -
  have "\<nexists>dt. strptime (take (length s - 6) s) = Inr dt"
    using strptime_length [of "take (length s - 6) s"] assms(4) by auto
  then obtain e where "strptime (take (length s - 6) s) = Inl e"
    by (cases "strptime (take (length s - 6) s)") auto
  with strptime_error have "strptime (take (length s - 6) s) = Inl ValueError"
    by blast
  then show ?thesis
    using assms by (simp add: parse_branch_result_PDict parse_commit_result_PDict)
qed

lemma dict_get_absent: "map_of kvs k = None \<Longrightarrow> dict_get kvs k = PNone"
  by (simp add: dict_get_def)

lemma parse_branch_without_name:
  "parse_branch_result (PDict [(''commit'', raw_commit ''fix'' ''2023-06-22T10:15:30+00:00'')])
     = Inr \<lparr>b_name = PNone, b_last_commit = mapped_commit ''fix''\<rparr>"
  by (simp add: parse_branch_result_PDict dict_get_def parse_raw_commit)

text \<open>
  C5, as the claim states it: a record that lacks a name should raise. A record with a
  commit and no name is mapped to a branch whose name is \<^verbatim>\<open>None\<close>.
\<close>

theorem missing_name_counterexample:
  "parse_branch_result (PDict [(''commit'', raw_commit ''fix'' ''2023-06-22T10:15:30+00:00'')])
     = Inr \<lparr>b_name = PNone, b_last_commit = mapped_commit ''fix''\<rparr>"
  by (rule parse_branch_without_name)

text \<open>
  C5, amended. Mapping a record succeeds exactly when the record is an object, its commit is
  an object, the commit's author is an object, the commit's timestamp is a string that
  \<open>strptime\<close> accepts once its last 6 characters are cut, and the commit's message is a
  string or a list. Every failure is an \<open>AttributeError\<close>, a \<open>TypeError\<close> or a \<open>ValueError\<close>.
  The name is not checked: the branch has the record's name, \<^verbatim>\<open>None\<close> when there is none,
  and the commit has the name in the author object, \<^verbatim>\<open>None\<close> when there is none.
  A record without a commit, or whose commit has no author, raises \<open>AttributeError\<close>; a
  timestamp of fewer than 20 characters, which leaves fewer than 14, raises \<open>ValueError\<close>;
  and 14 characters can be enough, as in \<^verbatim>\<open>2023-6-2T1:5:3\<close>.
\<close>

theorem parse_branch_result_ok_iff:
  "((\<exists>b. parse_branch_result r = Inr b) \<longleftrightarrow>
     (\<exists>fields c a s dt. r = PDict fields \<and> dict_get fields ''commit'' = PDict c
        \<and> dict_get c ''author'' = PDict a
        \<and> dict_get c ''timestamp'' = PStr s \<and> strptime (take (length s - 6) s) = Inr dt
        \<and> ((\<exists>m. dict_get c ''message'' = PStr m) \<or> (\<exists>ms. dict_get c ''message'' = PList ms))))
   \<and> (parse_branch_result r = Inl e \<longrightarrow> e = AttributeError \<or> e = TypeError \<or> e = ValueError)
   \<and> (parse_branch_result (PDict kvs) = Inr b \<longrightarrow> get_name b = dict_get kvs ''name'')
   \<and> (parse_branch_result (PDict kvs) = Inr b \<and> dict_get kvs ''commit'' = PDict cf
        \<and> dict_get cf ''author'' = PDict af \<longrightarrow>
        c_author (get_last_commit b) = dict_get af ''name'')
   \<and> (map_of kvs ''commit'' = None \<longrightarrow> parse_branch_result (PDict kvs) = Inl AttributeError)
   \<and> (dict_get kvs ''commit'' = PDict cf \<and> map_of cf ''author'' = None \<longrightarrow>
        parse_branch_result (PDict kvs) = Inl AttributeError)
   \<and> (dict_get kvs ''commit'' = PDict cf \<and> dict_get cf ''author'' = PDict af
        \<and> dict_get cf ''timestamp'' = PStr ts \<and> length ts < 20 \<longrightarrow>
        parse_branch_result (PDict kvs) = Inl ValueError)
   \<and> strptime ''2023-6-2T1:5:3'' =
        Inr \<lparr>dt_year = 2023, dt_month = 6, dt_day = 2, dt_hour = 1, dt_minute = 5,
             dt_second = 3, dt_microsecond = 0\<rparr>"
proof -
  have name: "parse_branch_result (PDict kvs) = Inr b \<longrightarrow> get_name b = dict_get kvs ''name''"
    by (auto simp: parse_branch_result_PDict get_name_def split: sum.splits)
  have author: "parse_branch_result (PDict kvs) = Inr b \<and> dict_get kvs ''commit'' = PDict cf
        \<and> dict_get cf ''author'' = PDict af \<longrightarrow>
        c_author (get_last_commit b) = dict_get af ''name''"
    by (auto simp: parse_branch_result_PDict parse_commit_result_PDict get_last_commit_def
          Commit_init_def split: sum.splits pyval.splits)
  have no_commit: "map_of kvs ''commit'' = None \<longrightarrow>
      parse_branch_result (PDict kvs) = Inl AttributeError"
    by (simp add: parse_branch_result_PDict dict_get_absent parse_commit_result_not_dict)
  have no_author: "dict_get kvs ''commit'' = PDict cf \<and> map_of cf ''author'' = None \<longrightarrow>
        parse_branch_result (PDict kvs) = Inl AttributeError"
    by (simp add: parse_branch_result_PDict parse_commit_result_PDict dict_get_absent)
  have short: "strptime ''2023-6-2T1:5:3'' =
        Inr \<lparr>dt_year = 2023, dt_month = 6, dt_day = 2, dt_hour = 1, dt_minute = 5,
             dt_second = 3, dt_microsecond = 0\<rparr>"
    by (simp add: strptime_def format_regex_match_def re_Y_def re_m_def re_d_def re_H_def
        re_M_def re_S_def re_lit_def two_digits_def one_digit_def digit_of_def
        datetime_new_def days_in_month_def is_leap_def)
  from parse_branch_result_ok [of r] parse_branch_result_error [of r e] name author no_commit
    no_author short_timestamp_fails [of kvs cf af ts] short
  show ?thesis by blast
qed


text \<open>
  The example record is mapped; a list, a record without a commit, a commit without an
  author and a timestamp of 16 characters raise; the record without a name is mapped.
\<close>

theorem parse_branch_result_ok_iff_witness:
  "(\<exists>b. parse_branch_result (raw_branch ''fix'' ''2023-06-22T10:15:30+00:00'') = Inr b)
   \<and> parse_branch_result (PList []) = Inl AttributeError
   \<and> parse_branch_result (PDict [(''commit'', raw_commit ''fix'' ''2023-06-22T10:15:30+00:00'')])
       = Inr \<lparr>b_name = PNone, b_last_commit = mapped_commit ''fix''\<rparr>
   \<and> get_name \<lparr>b_name = PNone, b_last_commit = mapped_commit ''fix''\<rparr> = PNone
   \<and> c_author (get_last_commit \<lparr>b_name = PNone, b_last_commit = mapped_commit ''fix''\<rparr>)
       = PStr ''ann''
   \<and> map_of [(''name'', PStr ''main'')] ''commit'' = None
   \<and> parse_branch_result (PDict [(''name'', PStr ''main'')]) = Inl AttributeError
   \<and> dict_get [(''commit'', PDict [(''message'', PStr ''fix'')])] ''commit''
       = PDict [(''message'', PStr ''fix'')]
   \<and> map_of [(''message'', PStr ''fix'')] ''author'' = None
   \<and> parse_branch_result (PDict [(''commit'', PDict [(''message'', PStr ''fix'')])])
       = Inl AttributeError
   \<and> length ''2023-06-22+00:00'' < 20
   \<and> parse_branch_result (raw_branch ''fix'' ''2023-06-22+00:00'') = Inl ValueError"
proof -
  let ?full = "''2023-06-22T10:15:30+00:00''"
  let ?nameless = "[(''commit'', raw_commit ''fix'' ?full)]"
  let ?b = "\<lparr>b_name = PNone, b_last_commit = mapped_commit ''fix''\<rparr>"
  have ok: "parse_branch_result (PDict ?nameless) = Inr ?b"
    by (rule parse_branch_without_name)
  have shape: "dict_get ?nameless ''commit'' = PDict (raw_commit_fields ''fix'' ?full)"
    "dict_get (raw_commit_fields ''fix'' ?full) ''author'' = PDict author_fields"
    "dict_get ?nameless ''name'' = PNone" "dict_get author_fields ''name'' = PStr ''ann''"
    by (simp_all add: dict_get_def raw_commit_def raw_commit_fields_def author_fields_def)
  have full: "\<exists>fields c a s dt. raw_branch ''fix'' ?full = PDict fields
        \<and> dict_get fields ''commit'' = PDict c \<and> dict_get c ''author'' = PDict a
        \<and> dict_get c ''timestamp'' = PStr s \<and> strptime (take (length s - 6) s) = Inr dt
        \<and> ((\<exists>m. dict_get c ''message'' = PStr m) \<or> (\<exists>ms. dict_get c ''message'' = PList ms))"
    by (rule exI [of _ "raw_branch_fields ''fix'' ?full"],
        rule exI [of _ "raw_commit_fields ''fix'' ?full"],
        rule exI [of _ author_fields], rule exI [of _ ?full], rule exI [of _ june_22])
       (simp add: raw_branch_def raw_branch_fields_def raw_commit_def raw_commit_fields_def
          dict_get_def strptime_june_22)
  have a: "\<exists>b. parse_branch_result (raw_branch ''fix'' ?full) = Inr b"
    using parse_branch_result_ok_iff [where r = "raw_branch ''fix'' ?full"] full by blast
  have e: "parse_branch_result (PList []) = Inl AttributeError"
    by (simp add: parse_branch_result_not_dict)
  have n: "get_name ?b = PNone" "c_author (get_last_commit ?b) = PStr ''ann''"
    using parse_branch_result_ok_iff
      [where kvs = ?nameless and b = ?b and cf = "raw_commit_fields ''fix'' ?full"
         and af = author_fields] ok shape
    by simp_all
  have c1: "map_of [(''name'', PStr ''main'')] ''commit'' = None"
    by simp
  have c2: "parse_branch_result (PDict [(''name'', PStr ''main'')]) = Inl AttributeError"
    using parse_branch_result_ok_iff [where kvs = "[(''name'', PStr ''main'')]"] c1 by blast
  have d1: "dict_get [(''commit'', PDict [(''message'', PStr ''fix'')])] ''commit''
       = PDict [(''message'', PStr ''fix'')]"
    "map_of [(''message'', PStr ''fix'')] ''author'' = None"
    by (simp_all add: dict_get_def)
  have d2: "parse_branch_result (PDict [(''commit'', PDict [(''message'', PStr ''fix'')])])
       = Inl AttributeError"
    using parse_branch_result_ok_iff
      [where kvs = "[(''commit'', PDict [(''message'', PStr ''fix'')])]"
         and cf = "[(''message'', PStr ''fix'')]"] d1 by blast
  have s1: "dict_get (raw_branch_fields ''fix'' ''2023-06-22+00:00'') ''commit''
       = PDict (raw_commit_fields ''fix'' ''2023-06-22+00:00'')"
    "dict_get (raw_commit_fields ''fix'' ''2023-06-22+00:00'') ''author'' = PDict author_fields"
    "dict_get (raw_commit_fields ''fix'' ''2023-06-22+00:00'') ''timestamp''
       = PStr ''2023-06-22+00:00''"
    "length ''2023-06-22+00:00'' < 20"
    by (simp_all add: dict_get_def raw_branch_fields_def raw_commit_def raw_commit_fields_def)
  have s2: "parse_branch_result (raw_branch ''fix'' ''2023-06-22+00:00'') = Inl ValueError"
    unfolding raw_branch_def
    using parse_branch_result_ok_iff
      [where kvs = "raw_branch_fields ''fix'' ''2023-06-22+00:00''"
         and cf = "raw_commit_fields ''fix'' ''2023-06-22+00:00''"
         and af = author_fields and ts = "''2023-06-22+00:00''"] s1 by blast
  from a e ok n c1 c2 d1 d2 s1(4) s2 show ?thesis
    by blast
qed

section \<open>The request\<close>

lemma str_int_404: "str_int 404 = ''404''"
  by (simp add: str_int_def str_nat.simps digit_char_def)

lemma get_branches_response:
  assumes "http (get_url g (g_owner g @ ''/'' @ g_repository g @ ''/branches'')) (g_headers g)
             = Inr resp"
  shows "get_branches http loads g =
     (if status_code resp \<notin> {200, 2001}
      then Inl (Exception (''Received status code: '' @ str_int (status_code resp)
                             @ '' ('' @ resp_url resp @ '')''))
      else (case loads (resp_text resp) of None \<Rightarrow> Inl JSONDecodeError | Some v \<Rightarrow> Inr v))"
  using assms by (simp add: get_branches_def Let_def)

text \<open>
  C6. For a request that the server answers, \<open>get_branches\<close> raises the exception with the
  status message exactly when the status code is neither 200 nor 2001, and with 200 or 2001
  it returns what the decoder makes of the body. A run whose request is answered with 404
  ends with that exception logged and prints no table.
\<close>

theorem get_branches_status:
  assumes "http (get_url g (g_owner g @ ''/'' @ g_repository g @ ''/branches'')) (g_headers g)
             = Inr resp"
  shows "((\<exists>msg. get_branches http loads g = Inl (Exception msg))
            \<longleftrightarrow> status_code resp \<notin> {200, 2001})
    \<and> (status_code resp \<notin> {200, 2001} \<longrightarrow>
         get_branches http loads g =
           Inl (Exception (''Received status code: '' @ str_int (status_code resp)
                             @ '' ('' @ resp_url resp @ '')'')))
    \<and> (status_code resp \<in> {200, 2001} \<longrightarrow>
         get_branches http loads g =
           (case loads (resp_text resp) of None \<Rightarrow> Inl JSONDecodeError | Some v \<Rightarrow> Inr v))
    \<and> (g = Gitea_init (a_gitea_url a) (a_access_token a) (a_owner a) (a_repository a)
         \<and> status_code resp = 404 \<longrightarrow>
         main http loads clk a =
           Logged (Exception (''Received status code: 404 ('' @ resp_url resp @ '')''))
         \<and> (\<forall>tbl. main http loads clk a \<noteq> Printed tbl))"
proof -
  note gb = get_branches_response
    [where http = http and g = g and resp = resp and loads = loads, OF assms]
  have iff: "(\<exists>msg. get_branches http loads g = Inl (Exception msg))
            \<longleftrightarrow> status_code resp \<notin> {200, 2001}"
    unfolding gb by (auto split: option.splits)
  have main404: "g = Gitea_init (a_gitea_url a) (a_access_token a) (a_owner a) (a_repository a)
         \<and> status_code resp = 404 \<longrightarrow>
         main http loads clk a =
           Logged (Exception (''Received status code: 404 ('' @ resp_url resp @ '')''))
         \<and> (\<forall>tbl. main http loads clk a \<noteq> Printed tbl)"
  proof (intro impI, elim conjE)
    assume g: "g = Gitea_init (a_gitea_url a) (a_access_token a) (a_owner a) (a_repository a)"
      and s: "status_code resp = 404"
    have "get_branches http loads g =
        Inl (Exception (''Received status code: 404 ('' @ resp_url resp @ '')''))"
      unfolding gb by (simp add: s str_int_404)
    then have "main http loads clk a =
           Logged (Exception (''Received status code: 404 ('' @ resp_url resp @ '')''))"
      unfolding main_def Let_def g [symmetric] by simp
    then show "main http loads clk a =
           Logged (Exception (''Received status code: 404 ('' @ resp_url resp @ '')''))
         \<and> (\<forall>tbl. main http loads clk a \<noteq> Printed tbl)"
      by simp
  qed
  show ?thesis
    using iff main404 unfolding gb by simp
qed


text \<open>
  The answers 404, 200 and 2001 of the example server: the first is raised and logged, the
  other two are decoded.
\<close>

theorem get_branches_status_witness:
  "respond 404 ''Not found''
       (get_url example_gitea (g_owner example_gitea @ ''/'' @ g_repository example_gitea
          @ ''/branches'')) (g_headers example_gitea)
     = Inr \<lparr>status_code = 404,
            resp_url = ''https://git.example.org/api/v1/repos/rls/fw/branches'',
            resp_text = ''Not found''\<rparr>
   \<and> (404::int) \<notin> {200, 2001}
   \<and> get_branches (respond 404 ''Not found'') loads_list example_gitea
       = Inl (Exception (''Received status code: 404 ''
                @ ''(https://git.example.org/api/v1/repos/rls/fw/branches)''))
   \<and> main (respond 404 ''Not found'') loads_list (\<lambda>_. feb_first) example_args
       = Logged (Exception (''Received status code: 404 ''
                @ ''(https://git.example.org/api/v1/repos/rls/fw/branches)''))
   \<and> (200::int) \<in> {200, 2001}
   \<and> get_branches (respond 200 ''[]'') loads_list example_gitea = Inr (PList [])
   \<and> (2001::int) \<in> {200, 2001}
   \<and> get_branches (respond 2001 ''[]'') loads_list example_gitea = Inr (PList [])"
proof -
  let ?url = "''https://git.example.org/api/v1/repos/rls/fw/branches''"
  have req: "respond code body
       (get_url example_gitea (g_owner example_gitea @ ''/'' @ g_repository example_gitea
          @ ''/branches'')) (g_headers example_gitea)
     = Inr \<lparr>status_code = code, resp_url = ?url, resp_text = body\<rparr>" for code body
    by (simp add: respond_def example_gitea_def Gitea_init_def get_url_def)
  have g: "example_gitea = Gitea_init (a_gitea_url example_args) (a_access_token example_args)
      (a_owner example_args) (a_repository example_args)"
    by (simp add: example_gitea_def example_args_def)
  note nf = get_branches_status
    [where http = "respond 404 ''Not found''" and g = example_gitea and loads = loads_list
       and a = example_args and clk = "\<lambda>_. feb_first", OF req]
  note ok = get_branches_status
    [where http = "respond 200 ''[]''" and g = example_gitea and loads = loads_list, OF req]
  note legacy = get_branches_status
    [where http = "respond 2001 ''[]''" and g = example_gitea and loads = loads_list, OF req]
  show ?thesis
    using nf ok legacy g req [of 404 "''Not found''"]
    by (simp add: str_int_404 loads_list_def)
qed

section \<open>An empty repository\<close>

text \<open>
  C7. \<open>display_tabulate\<close> on a repository without branches raises \<open>IndexError\<close>, with or
  without sorting, and a run in which the server returns an empty list ends with that
  exception logged: no message about the absence of inactive branches is printed.
\<close>

theorem display_tabulate_empty:
  "fst (display_tabulate clk \<lparr>r_name = n, r_branches = []\<rparr> sort_by_datetime t) = Inl IndexError
   \<and> main (respond 200 ''[]'') loads_list clk example_args = Logged IndexError"
  by (simp add: display_tabulate_def sorted_branches_def main_def get_branches_def
        respond_def loads_list_def example_args_def Gitea_init_def
        parse_repository_results_def Repository_init_def timedelta_of_days_def
        get_inactive_branches_def)

section \<open>The timestamp column\<close>

text \<open>
  C9. The format \<^verbatim>\<open>%d-%m-%Y %H:%m\<close> ends with the month, not with the minute: the column
  does not depend on the minute of the timestamp, and 22 June 2023, 10:15:30 is shown as
  \<^verbatim>\<open>22-06-2023 10:06\<close>.
\<close>

theorem strftime_repeats_month:
  "strftime (d\<lparr>dt_minute := x\<rparr>) = strftime d
   \<and> strftime june_22 = ''22-06-2023 10:06''
   \<and> dict_get (Commit_get_dict (mapped_commit m)) ''timestamp'' = PStr ''22-06-2023 10:06''"
proof -
  have any_minute: "strftime (d\<lparr>dt_minute := x\<rparr>) = strftime d"
    by (simp add: strftime_def)
  have shown: "strftime june_22 = ''22-06-2023 10:06''"
    by (simp add: strftime_def june_22_def pad2_def digit_char_def str_nat.simps)
  have cell: "dict_get (Commit_get_dict (mapped_commit m)) ''timestamp''
      = PStr ''22-06-2023 10:06''"
    by (simp add: Commit_get_dict_def mapped_commit_def dict_get_def shown)
  from any_minute shown cell show ?thesis
    by simp
qed

end
